theory Spec2Isabelle
  imports Main
begin

section \<open>JavaScript values met by the helpers\<close>

text \<open>
  A value that may be \<open>undefined\<close> or \<open>null\<close>. The helpers read the provider's answer
  through optional chaining (\<open>a?.b\<close>), test it with \<open>!x\<close> and default it with \<open>??\<close>.
  On a value that is an object or nullish, all three only ask whether it is nullish
  (an object is truthy).
\<close>

datatype 'a nullable = Undefined | Null | Value 'a

text \<open>\<open>v?.f\<close>: \<open>undefined\<close> when \<open>v\<close> is nullish, the property otherwise.\<close>

definition opt_chain :: "'a nullable \<Rightarrow> ('a \<Rightarrow> 'b nullable) \<Rightarrow> 'b nullable" where
  "opt_chain v f = (case v of Value a \<Rightarrow> f a | Undefined \<Rightarrow> Undefined | Null \<Rightarrow> Undefined)"

text \<open>Exceptions that can leave the helpers: none of them has a \<open>try\<close>.\<close>

datatype js_error =
    NetworkError      \<comment> \<open>\<open>await fetch(...)\<close> rejected\<close>
  | JsonSyntaxError   \<comment> \<open>\<open>await res.json()\<close> rejected\<close>
  | TypeError         \<comment> \<open>property read on \<open>null\<close>/\<open>undefined\<close>, call of a non-function\<close>

section \<open>Data model\<close>

text \<open>
  \<open>AccessTokenResponse\<close> (idp-login.ts) and \<open>RefreshTokenResponse\<close> (token-refresh.ts)
  are the same three fields. Numbers are integers here: seconds and milliseconds.
\<close>

record AccessTokenResponse =
  accessToken :: string
  refreshToken :: string
  expiresIn :: int

type_synonym RefreshTokenResponse = AccessTokenResponse

text \<open>An entry of \<open>groups: Array<{ id: string; name: string }>\<close>.\<close>

record user_group =
  group_id :: string
  group_name :: string

text \<open>
  \<open>UserInfo\<close>. The type of helpers/user-info.ts has no \<open>groups\<close> property, the one of the
  second user-info file has; \<open>None\<close> is the property being absent (read as \<open>undefined\<close>).
\<close>

record UserInfo =
  info_id :: string
  firstName :: string
  lastName :: string
  email :: string
  groups :: "user_group list option"

text \<open>
  A \<open>Date\<close> holds a time value, an integer number of milliseconds at most 8.64e15 away
  from the epoch, or is Invalid Date, whose time value is \<open>NaN\<close>. \<open>new Date(x)\<close> on an
  integer \<open>x\<close> keeps \<open>x\<close> inside that range and gives Invalid Date outside. The
  functions below build every date with \<open>new_Date\<close>; a value \<open>Date t\<close> with \<open>t\<close> outside
  the range stands for no JavaScript \<open>Date\<close>.
\<close>

definition max_time :: int where
  "max_time = 8640000000000000"

datatype date = Date int | Invalid_Date

definition new_Date :: "int \<Rightarrow> date" where
  "new_Date x = (if \<bar>x\<bar> \<le> max_time then Date x else Invalid_Date)"

text \<open>\<open>d.getTime()\<close>: \<open>None\<close> is \<open>NaN\<close>.\<close>

definition getTime :: "date \<Rightarrow> int option" where
  "getTime d = (case d of Date t \<Rightarrow> Some t | Invalid_Date \<Rightarrow> None)"

text \<open>
  \<open>x - y\<close> and \<open>x > y\<close> where \<open>x\<close> may be \<open>NaN\<close>: the difference is \<open>NaN\<close> again, and
  every comparison with \<open>NaN\<close> is false.
\<close>

definition js_minus :: "int option \<Rightarrow> int \<Rightarrow> int option" where
  "js_minus x y = (case x of Some a \<Rightarrow> Some (a - y) | None \<Rightarrow> None)"

definition js_gt :: "int option \<Rightarrow> int \<Rightarrow> bool" where
  "js_gt x y = (case x of Some a \<Rightarrow> a > y | None \<Rightarrow> False)"

text \<open>\<open>SessionData["user"]\<close> and \<open>SessionData["session"]\<close>.\<close>

record user =
  user_id :: string
  user_email :: string
  user_name :: string
  user_createdAt :: date
  user_updatedAt :: date
  emailVerified :: bool
  user_groups :: "user_group list option"

record session =
  session_id :: string
  userId :: string
  createdAt :: date
  updatedAt :: date
  token :: string
  expiresAt :: date

record SessionData =
  sd_user :: user
  sd_session :: session

record AuthError =
  error :: string
  status :: int

section \<open>The provider: requests, answers, clock\<close>

text \<open>
  The GraphQL answer, typed by the fields the three queries select. Every level that the
  code reaches through \<open>?.\<close> may be nullish. The leaves have the types that the
  TypeScript result types declare (\<open>string\<close>, \<open>number\<close>); the helpers copy them without
  a check. The token node has the three fields of \<open>AccessTokenResponse\<close>.
\<close>

record group_node =
  node_id :: string
  node_name :: string

record customer_groups =
  nodes :: "group_node nullable list nullable"

record customer_node =
  customer_id :: string
  customer_firstName :: string
  customer_lastName :: string
  customer_email :: string
  customerGroups :: "customer_groups nullable"

record token_payload =
  customerAccessToken :: "AccessTokenResponse nullable"

record gql_data =
  customerAccessTokenCreate :: "token_payload nullable"
  customerAccessTokenRefresh :: "token_payload nullable"
  customer :: "customer_node nullable"

record gql_json =
  data :: "gql_data nullable"

text \<open>What \<open>res.json()\<close> gives: it rejects on a body that is not JSON.\<close>

datatype body = NotJson | Json "gql_json nullable"

text \<open>What \<open>fetch\<close> gives: it rejects on a network failure, else a response with \<open>ok\<close>.\<close>

datatype fetch_outcome = Rejected | Response bool body

text \<open>
  The three requests: all are POST with content-type application/json to the endpoint;
  they differ in the query, its variables and the Authorization header.
\<close>

datatype gql_operation =
    CustomerAccessTokenCreate string string   \<comment> \<open>variables.input.email, .password\<close>
  | GetCustomer
  | CustomerAccessTokenRefresh string         \<comment> \<open>variables.input.refreshToken\<close>

record request =
  url :: string
  authorization :: "string option"
  operation :: gql_operation

text \<open>
  The environment: the clock read by \<open>Date.now()\<close>, the requests sent so far (oldest
  first), and the network, which answers a request (given the earlier ones) with an
  outcome and the milliseconds that pass while the caller awaits it. \<open>Date.now()\<close>
  returns a time value, so the clock is read within the range of time values. With
  the reading in that range and \<open>expiresIn\<close> an integer, \<open>now + expiresIn * 1000\<close> in
  double arithmetic and in the integers give the same \<open>Date\<close>.
\<close>

record world =
  clock :: int
  sent :: "request list"
  network :: "request list \<Rightarrow> request \<Rightarrow> fetch_outcome \<times> nat"

definition Date_now :: "world \<Rightarrow> int" where
  "Date_now w = max (- max_time) (min max_time (clock w))"

definition fetch :: "world \<Rightarrow> request \<Rightarrow> fetch_outcome \<times> world" where
  "fetch w req =
     (case network w (sent w) req of
        (out, ms) \<Rightarrow> (out, w\<lparr>clock := clock w + int ms, sent := sent w @ [req]\<rparr>))"

section \<open>helpers/idp-login.ts\<close>

record login_input =
  input_email :: string
  input_password :: string

definition login_request :: "string \<Rightarrow> login_input \<Rightarrow> request" where
  "login_request apiEndpoint input =
     \<lparr>url = apiEndpoint, authorization = None,
      operation = CustomerAccessTokenCreate (input_email input) (input_password input)\<rparr>"

text \<open>\<open>json?.data?.customerAccessTokenCreate?.customerAccessToken\<close>\<close>

definition login_token_node :: "gql_json nullable \<Rightarrow> AccessTokenResponse nullable" where
  "login_token_node json =
     opt_chain (opt_chain (opt_chain json data) customerAccessTokenCreate) customerAccessToken"

definition callIdpLogin ::
  "world \<Rightarrow> string \<Rightarrow> login_input \<Rightarrow> (js_error + AccessTokenResponse option) \<times> world" where
  "callIdpLogin w apiEndpoint input =
     (case fetch w (login_request apiEndpoint input) of
        (Rejected, w') \<Rightarrow> (Inl NetworkError, w')
      | (Response ok b, w') \<Rightarrow>
          if \<not> ok then (Inr None, w')
          else (case b of
                  NotJson \<Rightarrow> (Inl JsonSyntaxError, w')
                | Json json \<Rightarrow>
                    (let tokenNode = login_token_node json
                     in case tokenNode of
                          Value t \<Rightarrow>
                            (Inr (Some \<lparr>accessToken = accessToken t,
                                        refreshToken = refreshToken t,
                                        expiresIn = expiresIn t\<rparr>), w')
                        | Undefined \<Rightarrow> (Inr None, w')
                        | Null \<Rightarrow> (Inr None, w'))))"

section \<open>helpers/user-info.ts, and the second user-info file\<close>

definition profile_request :: "string \<Rightarrow> string \<Rightarrow> request" where
  "profile_request apiEndpoint accessToken' =
     \<lparr>url = apiEndpoint, authorization = Some (''Bearer '' @ accessToken'),
      operation = GetCustomer\<rparr>"

text \<open>\<open>json?.data?.customer\<close>\<close>

definition customer_of :: "gql_json nullable \<Rightarrow> customer_node nullable" where
  "customer_of json = opt_chain (opt_chain json data) customer"

text \<open>helpers/user-info.ts: the returned object has four properties.\<close>

definition getUserInfo ::
  "world \<Rightarrow> string \<Rightarrow> string \<Rightarrow> (js_error + UserInfo option) \<times> world" where
  "getUserInfo w apiEndpoint accessToken' =
     (case fetch w (profile_request apiEndpoint accessToken') of
        (Rejected, w') \<Rightarrow> (Inl NetworkError, w')
      | (Response ok b, w') \<Rightarrow>
          if \<not> ok then (Inr None, w')
          else (case b of
                  NotJson \<Rightarrow> (Inl JsonSyntaxError, w')
                | Json json \<Rightarrow>
                    (case customer_of json of
                       Value c \<Rightarrow>
                         (Inr (Some \<lparr>info_id = customer_id c,
                                     firstName = customer_firstName c,
                                     lastName = customer_lastName c,
                                     email = customer_email c,
                                     groups = None\<rparr>), w')
                     | Undefined \<Rightarrow> (Inr None, w')
                     | Null \<Rightarrow> (Inr None, w'))))"

text \<open>
  \<open>nodes.map((group) => ({id: group.id, name: group.name}))\<close>: in order; reading
  \<open>group.id\<close> of a nullish entry throws.
\<close>

fun map_groups :: "group_node nullable list \<Rightarrow> js_error + user_group list" where
  "map_groups [] = Inr []"
| "map_groups (g # gs) =
     (case g of
        Value n \<Rightarrow>
          (case map_groups gs of
             Inl e \<Rightarrow> Inl e
           | Inr r \<Rightarrow> Inr (\<lparr>group_id = node_id n, group_name = node_name n\<rparr> # r))
      | Undefined \<Rightarrow> Inl TypeError
      | Null \<Rightarrow> Inl TypeError)"

text \<open>\<open>customer.customerGroups?.nodes?.map(...) ?? []\<close>\<close>

definition customer_group_list :: "customer_node \<Rightarrow> js_error + user_group list" where
  "customer_group_list c =
     (case opt_chain (customerGroups c) nodes of
        Value ns \<Rightarrow> map_groups ns
      | Undefined \<Rightarrow> Inr []
      | Null \<Rightarrow> Inr [])"

text \<open>The second user-info file (src/unnamed/part_006): the same, with \<open>groups\<close>.\<close>

definition getUserInfo_part_006 ::
  "world \<Rightarrow> string \<Rightarrow> string \<Rightarrow> (js_error + UserInfo option) \<times> world" where
  "getUserInfo_part_006 w apiEndpoint accessToken' =
     (case fetch w (profile_request apiEndpoint accessToken') of
        (Rejected, w') \<Rightarrow> (Inl NetworkError, w')
      | (Response ok b, w') \<Rightarrow>
          if \<not> ok then (Inr None, w')
          else (case b of
                  NotJson \<Rightarrow> (Inl JsonSyntaxError, w')
                | Json json \<Rightarrow>
                    (case customer_of json of
                       Value c \<Rightarrow>
                         (case customer_group_list c of
                            Inl e \<Rightarrow> (Inl e, w')
                          | Inr gs \<Rightarrow>
                              (Inr (Some \<lparr>info_id = customer_id c,
                                          firstName = customer_firstName c,
                                          lastName = customer_lastName c,
                                          email = customer_email c,
                                          groups = Some gs\<rparr>), w'))
                     | Undefined \<Rightarrow> (Inr None, w')
                     | Null \<Rightarrow> (Inr None, w'))))"

section \<open>helpers/authenticate.ts\<close>

text \<open>
  The module imports \<open>getUserInfo\<close> from "./user-info"; the sources hold two such
  files, so the imported function is the first argument.
\<close>

definition authenticateAndCreateSession ::
  "(world \<Rightarrow> string \<Rightarrow> string \<Rightarrow> (js_error + UserInfo option) \<times> world) \<Rightarrow>
   world \<Rightarrow> string \<Rightarrow> string \<Rightarrow> string \<Rightarrow>
   (js_error + AuthError + SessionData) \<times> world" where
  "authenticateAndCreateSession getUserInfo' w apiEndpoint email' password =
     (case callIdpLogin w apiEndpoint \<lparr>input_email = email', input_password = password\<rparr> of
        (Inl e, w1) \<Rightarrow> (Inl e, w1)
      | (Inr None, w1) \<Rightarrow> (Inr (Inl \<lparr>error = ''Invalid credentials'', status = 401\<rparr>), w1)
      | (Inr (Some idpLogin), w1) \<Rightarrow>
          (let now = Date_now w1;
               expires = new_Date (now + expiresIn idpLogin * 1000)
           in case getUserInfo' w1 apiEndpoint (accessToken idpLogin) of
                (Inl e, w2) \<Rightarrow> (Inl e, w2)
              | (Inr None, w2) \<Rightarrow>
                  (Inr (Inl \<lparr>error = ''Failed to fetch user info'', status = 500\<rparr>), w2)
              | (Inr (Some userInfo), w2) \<Rightarrow>
                  (Inr (Inr
                     \<lparr>sd_user =
                        \<lparr>user_id = info_id userInfo,
                         user_email = email userInfo,
                         user_name = firstName userInfo @ '' '' @ lastName userInfo,
                         user_createdAt = new_Date now,
                         user_updatedAt = new_Date now,
                         emailVerified = True,
                         user_groups = groups userInfo\<rparr>,
                      sd_session =
                        \<lparr>session_id = refreshToken idpLogin,
                         userId = info_id userInfo,
                         createdAt = new_Date now,
                         updatedAt = new_Date now,
                         token = accessToken idpLogin,
                         expiresAt = expires\<rparr>\<rparr>), w2)))"

section \<open>helpers/token-refresh.ts\<close>

definition refresh_request :: "string \<Rightarrow> string \<Rightarrow> request" where
  "refresh_request apiEndpoint refreshToken' =
     \<lparr>url = apiEndpoint, authorization = None,
      operation = CustomerAccessTokenRefresh refreshToken'\<rparr>"

text \<open>\<open>json?.data?.customerAccessTokenRefresh?.customerAccessToken\<close>\<close>

definition refresh_token_node :: "gql_json nullable \<Rightarrow> AccessTokenResponse nullable" where
  "refresh_token_node json =
     opt_chain (opt_chain (opt_chain json data) customerAccessTokenRefresh) customerAccessToken"

definition refreshAccessToken ::
  "world \<Rightarrow> string \<Rightarrow> string \<Rightarrow> (js_error + RefreshTokenResponse option) \<times> world" where
  "refreshAccessToken w apiEndpoint refreshToken' =
     (case fetch w (refresh_request apiEndpoint refreshToken') of
        (Rejected, w') \<Rightarrow> (Inl NetworkError, w')
      | (Response ok b, w') \<Rightarrow>
          if \<not> ok then (Inr None, w')
          else (case b of
                  NotJson \<Rightarrow> (Inl JsonSyntaxError, w')
                | Json json \<Rightarrow>
                    (let tokenNode = refresh_token_node json
                     in case tokenNode of
                          Value t \<Rightarrow>
                            (Inr (Some \<lparr>accessToken = accessToken t,
                                        refreshToken = refreshToken t,
                                        expiresIn = expiresIn t\<rparr>), w')
                        | Undefined \<Rightarrow> (Inr None, w')
                        | Null \<Rightarrow> (Inr None, w'))))"

text \<open>The value \<open>getAccessToken\<close> resolves to; \<open>session\<close> is optional.\<close>

record token_result =
  result_accessToken :: string
  refreshed :: bool
  result_session :: "session option"

text \<open>\<open>refreshThresholdMinutes: number = 5\<close>: \<open>None\<close> is the argument left out.\<close>

definition threshold_minutes :: "int option \<Rightarrow> int" where
  "threshold_minutes refreshThresholdMinutes =
     (case refreshThresholdMinutes of None \<Rightarrow> 5 | Some m \<Rightarrow> m)"

text \<open>\<open>session.expiresAt.getTime() - Date.now()\<close>, as the first lines compute it.\<close>

definition timeUntilExpiry :: "world \<Rightarrow> session \<Rightarrow> int option" where
  "timeUntilExpiry w s = js_minus (getTime (expiresAt s)) (Date_now w)"

definition getAccessToken ::
  "world \<Rightarrow> string \<Rightarrow> session \<Rightarrow> int option \<Rightarrow> (js_error + token_result) \<times> world" where
  "getAccessToken w apiEndpoint s refreshThresholdMinutes =
     (let now = Date_now w;
          thresholdMs = threshold_minutes refreshThresholdMinutes * 60 * 1000
      in if js_gt (timeUntilExpiry w s) thresholdMs
         then (Inr \<lparr>result_accessToken = token s, refreshed = False, result_session = None\<rparr>, w)
         else (case refreshAccessToken w apiEndpoint (session_id s) of
                 (Inl e, w') \<Rightarrow> (Inl e, w')
               | (Inr None, w') \<Rightarrow>
                   (Inr \<lparr>result_accessToken = token s, refreshed = False,
                         result_session = None\<rparr>, w')
               | (Inr (Some r), w') \<Rightarrow>
                   (let newExpiresAt = new_Date (now + expiresIn r * 1000);
                        updatedSession =
                          s\<lparr>session_id := refreshToken r,
                            token := accessToken r,
                            expiresAt := newExpiresAt,
                            updatedAt := new_Date now\<rparr>
                    in (Inr \<lparr>result_accessToken = accessToken r, refreshed = True,
                             result_session = Some updatedSession\<rparr>, w'))))"

text \<open>
  The same call with the session passed as JavaScript passes it, by reference into a
  heap of session objects (an address is an index). The function reads the object, and
  the only object it makes is the spread copy \<open>updatedSession\<close>, which is new; no
  statement assigns to a property of \<open>session\<close>. Reading \<open>expiresAt\<close> of a missing
  object throws.
\<close>

definition getAccessToken_by_reference ::
  "world \<Rightarrow> session list \<Rightarrow> nat \<Rightarrow> string \<Rightarrow> int option \<Rightarrow>
   (js_error + string \<times> bool \<times> nat option) \<times> world \<times> session list" where
  "getAccessToken_by_reference w heap ref apiEndpoint refreshThresholdMinutes =
     (if ref < length heap
      then (case getAccessToken w apiEndpoint (heap ! ref) refreshThresholdMinutes of
              (Inl e, w') \<Rightarrow> (Inl e, w', heap)
            | (Inr res, w') \<Rightarrow>
                (case result_session res of
                   None \<Rightarrow> (Inr (result_accessToken res, refreshed res, None), w', heap)
                 | Some updatedSession \<Rightarrow>
                     (Inr (result_accessToken res, refreshed res, Some (length heap)), w',
                      heap @ [updatedSession])))
      else (Inl TypeError, w, heap))"

section \<open>A provider for the examples\<close>

text \<open>
  A provider that knows one account with a profile (ada), one without (bob: the profile
  fetch gets a non-success response) and one whose tokens live 8640000000000 seconds
  (eve). It answers the login of err@example.com with a non-success response, the one
  of html@example.com with a success response that is not JSON, and other credentials
  with a null token node. It exchanges the refresh tokens R1, R9 (negative lifetime)
  and RH (the long lifetime), answers R7 with a null token node, RJ with a success
  response that is not JSON and any other refresh token with a non-success response.
  A token takes 40 ms and a profile 250 ms.
\<close>

definition demo_customer :: customer_node where
  "demo_customer =
     \<lparr>customer_id = ''u1'', customer_firstName = ''Ada'', customer_lastName = ''Lovelace'',
      customer_email = ''ada@example.com'',
      customerGroups = Value \<lparr>nodes = Value [Value \<lparr>node_id = ''g1'', node_name = ''VIP''\<rparr>]\<rparr>\<rparr>"

definition no_data :: gql_data where
  "no_data = \<lparr>customerAccessTokenCreate = Undefined, customerAccessTokenRefresh = Undefined,
              customer = Undefined\<rparr>"

definition answer :: "gql_data \<Rightarrow> fetch_outcome" where
  "answer d = Response True (Json (Value \<lparr>data = Value d\<rparr>))"

definition demo_network :: "request list \<Rightarrow> request \<Rightarrow> fetch_outcome \<times> nat" where
  "demo_network history req =
     (case operation req of
        CustomerAccessTokenCreate e p \<Rightarrow>
          (if e = ''ada@example.com'' \<and> p = ''pw''
           then (answer (no_data\<lparr>customerAccessTokenCreate :=
                   Value \<lparr>customerAccessToken =
                     Value \<lparr>accessToken = ''T1'', refreshToken = ''R1'', expiresIn = 3600\<rparr>\<rparr>\<rparr>), 40)
           else if e = ''bob@example.com'' \<and> p = ''pw''
           then (answer (no_data\<lparr>customerAccessTokenCreate :=
                   Value \<lparr>customerAccessToken =
                     Value \<lparr>accessToken = ''TB'', refreshToken = ''RB'', expiresIn = 3600\<rparr>\<rparr>\<rparr>), 40)
           else if e = ''eve@example.com'' \<and> p = ''pw''
           then (answer (no_data\<lparr>customerAccessTokenCreate :=
                   Value \<lparr>customerAccessToken =
                     Value \<lparr>accessToken = ''TH'', refreshToken = ''RH'',
                            expiresIn = 8640000000000\<rparr>\<rparr>\<rparr>), 40)
           else if e = ''err@example.com''
           then (Response False NotJson, 40)
           else if e = ''html@example.com''
           then (Response True NotJson, 40)
           else (answer (no_data\<lparr>customerAccessTokenCreate :=
                   Value \<lparr>customerAccessToken = Null\<rparr>\<rparr>), 40))
      | GetCustomer \<Rightarrow>
          (if authorization req = Some ''Bearer T1'' \<or> authorization req = Some ''Bearer TH''
           then (answer (no_data\<lparr>customer := Value demo_customer\<rparr>), 250)
           else (Response False NotJson, 250))
      | CustomerAccessTokenRefresh r \<Rightarrow>
          (if r = ''R1''
           then (answer (no_data\<lparr>customerAccessTokenRefresh :=
                   Value \<lparr>customerAccessToken =
                     Value \<lparr>accessToken = ''T2'', refreshToken = ''R2'', expiresIn = 3600\<rparr>\<rparr>\<rparr>), 40)
           else if r = ''R9''
           then (answer (no_data\<lparr>customerAccessTokenRefresh :=
                   Value \<lparr>customerAccessToken =
                     Value \<lparr>accessToken = ''T9'', refreshToken = ''R9'', expiresIn = - 60\<rparr>\<rparr>\<rparr>), 40)
           else if r = ''RH''
           then (answer (no_data\<lparr>customerAccessTokenRefresh :=
                   Value \<lparr>customerAccessToken =
                     Value \<lparr>accessToken = ''TH2'', refreshToken = ''RH2'',
                            expiresIn = 8640000000000\<rparr>\<rparr>\<rparr>), 40)
           else if r = ''RJ''
           then (Response True NotJson, 40)
           else if r = ''R7''
           then (answer (no_data\<lparr>customerAccessTokenRefresh :=
                   Value \<lparr>customerAccessToken = Null\<rparr>\<rparr>), 40)
           else (Response False NotJson, 40)))"

definition demo_world :: world where
  "demo_world = \<lparr>clock = 1000000, sent = [], network = demo_network\<rparr>"

text \<open>The same clock with the network down: every \<open>fetch\<close> rejects.\<close>

definition offline_world :: world where
  "offline_world = \<lparr>clock = 1000000, sent = [], network = (\<lambda>history req. (Rejected, 0))\<rparr>"

definition demo_session :: "int \<Rightarrow> session" where
  "demo_session expiry =
     \<lparr>session_id = ''R1'', userId = ''u1'', createdAt = Date 5000, updatedAt = Date 6000,
      token = ''T1'', expiresAt = Date expiry\<rparr>"

section \<open>Unfolding sets and the requests each helper sends\<close>

lemmas demo_defs =
  demo_world_def offline_world_def demo_session_def demo_network_def demo_customer_def
  no_data_def answer_def

lemmas run_defs =
  Date_now_def max_time_def new_Date_def getTime_def js_minus_def js_gt_def
  timeUntilExpiry_def fetch_def threshold_minutes_def opt_chain_def
  login_request_def profile_request_def refresh_request_def
  login_token_node_def refresh_token_node_def customer_of_def customer_group_list_def

text \<open>Each provider call issues exactly one request, whatever comes back.\<close>

lemma callIdpLogin_sent:
  "sent (snd (callIdpLogin w apiEndpoint input)) = sent w @ [login_request apiEndpoint input]"
  by (simp add: callIdpLogin_def fetch_def Let_def
      split: prod.splits fetch_outcome.splits body.splits nullable.splits)

lemma getUserInfo_sent:
  "sent (snd (getUserInfo w apiEndpoint t)) = sent w @ [profile_request apiEndpoint t]"
  by (simp add: getUserInfo_def fetch_def
      split: prod.splits fetch_outcome.splits body.splits nullable.splits)

lemma getUserInfo_part_006_sent:
  "sent (snd (getUserInfo_part_006 w apiEndpoint t)) = sent w @ [profile_request apiEndpoint t]"
  by (simp add: getUserInfo_part_006_def fetch_def
      split: prod.splits fetch_outcome.splits body.splits nullable.splits sum.splits)

lemma refreshAccessToken_sent:
  "sent (snd (refreshAccessToken w apiEndpoint t)) = sent w @ [refresh_request apiEndpoint t]"
  by (simp add: refreshAccessToken_def fetch_def Let_def
      split: prod.splits fetch_outcome.splits body.splits nullable.splits)

text \<open>What each helper does with each kind of answer.\<close>

lemma refreshAccessToken_cases:
  "fetch w (refresh_request apiEndpoint t) = (out, w') \<Longrightarrow>
   refreshAccessToken w apiEndpoint t =
     (case out of
        Rejected \<Rightarrow> (Inl NetworkError, w')
      | Response ok b \<Rightarrow>
          if \<not> ok then (Inr None, w')
          else (case b of
                  NotJson \<Rightarrow> (Inl JsonSyntaxError, w')
                | Json json \<Rightarrow>
                    (case refresh_token_node json of
                       Value n \<Rightarrow> (Inr (Some n), w')
                     | Undefined \<Rightarrow> (Inr None, w')
                     | Null \<Rightarrow> (Inr None, w'))))"
  by (simp add: refreshAccessToken_def Let_def
      split: fetch_outcome.splits body.splits nullable.splits)

lemma callIdpLogin_cases:
  "fetch w (login_request apiEndpoint input) = (out, w') \<Longrightarrow>
   callIdpLogin w apiEndpoint input =
     (case out of
        Rejected \<Rightarrow> (Inl NetworkError, w')
      | Response ok b \<Rightarrow>
          if \<not> ok then (Inr None, w')
          else (case b of
                  NotJson \<Rightarrow> (Inl JsonSyntaxError, w')
                | Json json \<Rightarrow>
                    (case login_token_node json of
                       Value n \<Rightarrow> (Inr (Some n), w')
                     | Undefined \<Rightarrow> (Inr None, w')
                     | Null \<Rightarrow> (Inr None, w'))))"
  by (simp add: callIdpLogin_def Let_def
      split: fetch_outcome.splits body.splits nullable.splits)

text \<open>The clock never runs backwards over a request, and its reading is a time value.\<close>

lemma fetch_clock: "clock w \<le> clock (snd (fetch w req))"
  by (simp add: fetch_def split: prod.splits)

lemma getUserInfo_world:
  "snd (getUserInfo w apiEndpoint t) = snd (fetch w (profile_request apiEndpoint t))"
  by (simp add: getUserInfo_def
      split: prod.splits fetch_outcome.splits body.splits nullable.splits)

lemma getUserInfo_part_006_world:
  "snd (getUserInfo_part_006 w apiEndpoint t) = snd (fetch w (profile_request apiEndpoint t))"
  by (simp add: getUserInfo_part_006_def
      split: prod.splits fetch_outcome.splits body.splits nullable.splits sum.splits)

lemma Date_now_mono: "clock w \<le> clock w' \<Longrightarrow> Date_now w \<le> Date_now w'"
  by (simp add: Date_now_def max_time_def)

lemma getUserInfo_clock: "Date_now w \<le> Date_now (snd (getUserInfo w apiEndpoint t))"
  by (simp add: getUserInfo_world fetch_clock Date_now_mono)

lemma getUserInfo_part_006_clock:
  "Date_now w \<le> Date_now (snd (getUserInfo_part_006 w apiEndpoint t))"
  by (simp add: getUserInfo_part_006_world fetch_clock Date_now_mono)

lemma new_Date_now: "new_Date (Date_now w) = Date (Date_now w)"
  by (simp add: new_Date_def Date_now_def max_time_def)

text \<open>The two branches of \<open>getAccessToken\<close>, with the threshold in milliseconds.\<close>

lemma thresholdMs: "x * 60 * 1000 = x * (60000 :: int)"
  by simp

lemma getAccessToken_far:
  "js_gt (timeUntilExpiry w s) (threshold_minutes m * 60000) \<Longrightarrow>
   getAccessToken w apiEndpoint s m =
     (Inr \<lparr>result_accessToken = token s, refreshed = False, result_session = None\<rparr>, w)"
  unfolding getAccessToken_def Let_def thresholdMs by simp

lemma getAccessToken_near:
  "\<not> js_gt (timeUntilExpiry w s) (threshold_minutes m * 60000) \<Longrightarrow>
   getAccessToken w apiEndpoint s m =
     (case refreshAccessToken w apiEndpoint (session_id s) of
        (Inl e, w') \<Rightarrow> (Inl e, w')
      | (Inr None, w') \<Rightarrow>
          (Inr \<lparr>result_accessToken = token s, refreshed = False, result_session = None\<rparr>, w')
      | (Inr (Some r), w') \<Rightarrow>
          (Inr \<lparr>result_accessToken = accessToken r, refreshed = True,
                result_session = Some
                  (s\<lparr>session_id := refreshToken r, token := accessToken r,
                     expiresAt := new_Date (Date_now w + expiresIn r * 1000),
                     updatedAt := Date (Date_now w)\<rparr>)\<rparr>, w'))"
  unfolding getAccessToken_def Let_def thresholdMs new_Date_now by simp

text \<open>The by-reference call never changes an object that is already on the heap.\<close>

lemma getAccessToken_by_reference_keeps:
  "take (length heap)
     (snd (snd (getAccessToken_by_reference w heap ref apiEndpoint m))) = heap"
  by (simp add: getAccessToken_by_reference_def
      split: prod.splits sum.splits option.splits)

section \<open>Token-lifecycle check\<close>

text \<open>
  C1. When the session's expiry lies more than the threshold (in minutes, times 60000
  ms) after the clock reading taken at the start, \<open>getAccessToken\<close> returns the session's
  own token with \<open>refreshed = false\<close> and no session, and leaves the world as it was:
  no request is sent.
\<close>

theorem C1_no_refresh_far_from_expiry:
  assumes "timeUntilExpiry w s = Some d"
    and "d > threshold_minutes m * 60000"
  shows "getAccessToken w apiEndpoint s m =
           (Inr \<lparr>result_accessToken = token s, refreshed = False, result_session = None\<rparr>, w) \<and>
         sent (snd (getAccessToken w apiEndpoint s m)) = sent w"
  using assms by (simp add: getAccessToken_far js_gt_def)

theorem C1_no_refresh_far_from_expiry_witness:
  "timeUntilExpiry demo_world (demo_session 2800000) = Some 1800000 \<and>
   (1800000 :: int) > threshold_minutes None * 60000 \<and>
   getAccessToken demo_world ''ep'' (demo_session 2800000) None =
     (Inr \<lparr>result_accessToken = ''T1'', refreshed = False, result_session = None\<rparr>,
      demo_world) \<and>
   sent (snd (getAccessToken demo_world ''ep'' (demo_session 2800000) None)) = []"
proof -
  have t: "timeUntilExpiry demo_world (demo_session 2800000) = Some 1800000"
    and far: "(1800000 :: int) > threshold_minutes None * 60000"
    by (simp_all add: demo_defs run_defs)
  from C1_no_refresh_far_from_expiry [OF t far, of "''ep''"] t far show ?thesis
    by (simp add: demo_defs)
qed

text \<open>
  C2, as stated, has \<open>expiresAt\<close> equal to now + expiresIn * 1000 ms for every token set
  the refresh yields. \<open>expiresAt\<close> is \<open>new Date(now + expiresIn * 1000)\<close>, and a \<open>Date\<close>
  reaches 8.64e15 ms and no further: with expiresIn = 8640000000000 the updated
  session's \<open>expiresAt\<close> is Invalid Date.
\<close>

theorem C2_invalid_date_counterexample:
  "timeUntilExpiry demo_world ((demo_session 1180000)\<lparr>session_id := ''RH''\<rparr>) = Some 180000 \<and>
   \<not> (180000 :: int) > threshold_minutes None * 60000 \<and>
   fst (refreshAccessToken demo_world ''ep'' ''RH'') =
     Inr (Some \<lparr>accessToken = ''TH2'', refreshToken = ''RH2'', expiresIn = 8640000000000\<rparr>) \<and>
   fst (getAccessToken demo_world ''ep'' ((demo_session 1180000)\<lparr>session_id := ''RH''\<rparr>) None) =
     Inr \<lparr>result_accessToken = ''TH2'', refreshed = True,
          result_session = Some
            \<lparr>session_id = ''RH2'', userId = ''u1'', createdAt = Date 5000,
             updatedAt = Date 1000000, token = ''TH2'', expiresAt = Invalid_Date\<rparr>\<rparr>"
  by (simp add: getAccessToken_def refreshAccessToken_def Let_def demo_defs run_defs)

text \<open>
  C2, amended. When the time until expiry is not above the threshold and the refresh
  call yields a token set, \<open>getAccessToken\<close> returns the new access token with
  \<open>refreshed = true\<close> and a session whose id is the new refresh token, whose token is
  the new access token, whose \<open>updatedAt\<close> is now, and whose \<open>createdAt\<close> (and \<open>userId\<close>)
  are kept. Its \<open>expiresAt\<close> is now + expiresIn * 1000 ms when that lies within 8.64e15
  ms of the epoch, and Invalid Date otherwise. now is the clock reading at the start of
  the call, before the refresh request.
\<close>

theorem C2_refresh_updates_session:
  assumes "\<not> js_gt (timeUntilExpiry w s) (threshold_minutes m * 60000)"
    and "refreshAccessToken w apiEndpoint (session_id s) = (Inr (Some r), w')"
  shows "getAccessToken w apiEndpoint s m =
           (Inr \<lparr>result_accessToken = accessToken r, refreshed = True,
                 result_session = Some
                   \<lparr>session_id = refreshToken r, userId = userId s,
                    createdAt = createdAt s, updatedAt = Date (Date_now w),
                    token = accessToken r,
                    expiresAt =
                      (if \<bar>Date_now w + expiresIn r * 1000\<bar> \<le> 8640000000000000
                       then Date (Date_now w + expiresIn r * 1000)
                       else Invalid_Date)\<rparr>\<rparr>, w')"
  using assms by (simp add: getAccessToken_near new_Date_def max_time_def)

theorem C2_refresh_updates_session_witness:
  "\<not> js_gt (timeUntilExpiry demo_world (demo_session 1180000)) (threshold_minutes None * 60000) \<and>
   timeUntilExpiry demo_world (demo_session 1180000) = Some 180000 \<and>
   refreshAccessToken demo_world ''ep'' (session_id (demo_session 1180000)) =
     (Inr (Some \<lparr>accessToken = ''T2'', refreshToken = ''R2'', expiresIn = 3600\<rparr>),
      demo_world\<lparr>clock := 1000040, sent := [refresh_request ''ep'' ''R1'']\<rparr>) \<and>
   getAccessToken demo_world ''ep'' (demo_session 1180000) None =
     (Inr \<lparr>result_accessToken = ''T2'', refreshed = True,
           result_session = Some
             \<lparr>session_id = ''R2'', userId = ''u1'', createdAt = Date 5000,
              updatedAt = Date 1000000, token = ''T2'', expiresAt = Date 4600000\<rparr>\<rparr>,
      demo_world\<lparr>clock := 1000040, sent := [refresh_request ''ep'' ''R1'']\<rparr>)"
proof -
  have near: "\<not> js_gt (timeUntilExpiry demo_world (demo_session 1180000))
                (threshold_minutes None * 60000)"
    and t: "timeUntilExpiry demo_world (demo_session 1180000) = Some 180000"
    by (simp_all add: demo_defs run_defs)
  have call: "refreshAccessToken demo_world ''ep'' (session_id (demo_session 1180000)) =
     (Inr (Some \<lparr>accessToken = ''T2'', refreshToken = ''R2'', expiresIn = 3600\<rparr>),
      demo_world\<lparr>clock := 1000040, sent := [refresh_request ''ep'' ''R1'']\<rparr>)"
    by (simp add: refreshAccessToken_def demo_defs run_defs)
  from C2_refresh_updates_session [OF near call] near t call show ?thesis
    by (simp add: demo_defs run_defs)
qed

text \<open>
  C3, as stated, counts a transport failure among the ways the refresh call yields no
  result. It does not: with the network down \<open>fetch\<close> rejects, \<open>refreshAccessToken\<close> has
  no handler, and \<open>getAccessToken\<close> raises instead of falling back.
\<close>

theorem C3_transport_failure_counterexample:
  "\<not> js_gt (timeUntilExpiry offline_world (demo_session 1180000))
        (threshold_minutes None * 60000) \<and>
   fst (fetch offline_world (refresh_request ''ep'' (session_id (demo_session 1180000)))) = Rejected \<and>
   fst (getAccessToken offline_world ''ep'' (demo_session 1180000) None) = Inl NetworkError"
  by (simp add: getAccessToken_def refreshAccessToken_def demo_defs run_defs)

text \<open>
  C3, amended. When the time until expiry is not above the threshold and the refresh
  call yields no result, which it does on a non-success response and on an absent
  (undefined or null) token payload, \<open>getAccessToken\<close> returns the session's own token
  with \<open>refreshed = false\<close> and no session, and raises nothing; the session object it
  was given, and every other object of the heap, is left as it was and none is made.
  A transport failure is not such a case: when \<open>fetch\<close> rejects, and when a success
  response has a body that is not JSON, \<open>getAccessToken\<close> raises.
\<close>

theorem C3_fallback_when_refresh_yields_nothing:
  assumes "\<not> js_gt (timeUntilExpiry w s) (threshold_minutes m * 60000)"
  shows "(\<forall>w'. refreshAccessToken w apiEndpoint (session_id s) = (Inr None, w') \<longrightarrow>
            getAccessToken w apiEndpoint s m =
              (Inr \<lparr>result_accessToken = token s, refreshed = False,
                    result_session = None\<rparr>, w')) \<and>
         (\<forall>b. fst (fetch w (refresh_request apiEndpoint (session_id s))) = Response False b \<longrightarrow>
            fst (getAccessToken w apiEndpoint s m) =
              Inr \<lparr>result_accessToken = token s, refreshed = False, result_session = None\<rparr>) \<and>
         (\<forall>json. fst (fetch w (refresh_request apiEndpoint (session_id s))) = Response True (Json json)
              \<and> (refresh_token_node json = Undefined \<or> refresh_token_node json = Null) \<longrightarrow>
            fst (getAccessToken w apiEndpoint s m) =
              Inr \<lparr>result_accessToken = token s, refreshed = False, result_session = None\<rparr>) \<and>
         (fst (fetch w (refresh_request apiEndpoint (session_id s))) = Rejected \<longrightarrow>
            fst (getAccessToken w apiEndpoint s m) = Inl NetworkError) \<and>
         (fst (fetch w (refresh_request apiEndpoint (session_id s))) = Response True NotJson \<longrightarrow>
            fst (getAccessToken w apiEndpoint s m) = Inl JsonSyntaxError) \<and>
         (\<forall>heap ref w'. ref < length heap \<and> heap ! ref = s \<and>
              refreshAccessToken w apiEndpoint (session_id s) = (Inr None, w') \<longrightarrow>
            getAccessToken_by_reference w heap ref apiEndpoint m =
              (Inr (token s, False, None), w', heap))"
proof -
  obtain out w1 where f: "fetch w (refresh_request apiEndpoint (session_id s)) = (out, w1)"
    by (cases "fetch w (refresh_request apiEndpoint (session_id s))")
  note r = refreshAccessToken_cases [OF f]
  have fallback: "\<And>w'. refreshAccessToken w apiEndpoint (session_id s) = (Inr None, w') \<Longrightarrow>
            getAccessToken w apiEndpoint s m =
              (Inr \<lparr>result_accessToken = token s, refreshed = False,
                    result_session = None\<rparr>, w')"
    using assms by (simp add: getAccessToken_near)
  have a: "\<forall>b. out = Response False b \<longrightarrow>
            fst (getAccessToken w apiEndpoint s m) =
              Inr \<lparr>result_accessToken = token s, refreshed = False, result_session = None\<rparr>"
    using r fallback [of w1] by simp
  have b: "\<forall>json. out = Response True (Json json)
              \<and> (refresh_token_node json = Undefined \<or> refresh_token_node json = Null) \<longrightarrow>
            fst (getAccessToken w apiEndpoint s m) =
              Inr \<lparr>result_accessToken = token s, refreshed = False, result_session = None\<rparr>"
    using r fallback [of w1] by auto
  have c: "out = Rejected \<longrightarrow> fst (getAccessToken w apiEndpoint s m) = Inl NetworkError"
    using r assms by (simp add: getAccessToken_near)
  have d: "out = Response True NotJson \<longrightarrow>
             fst (getAccessToken w apiEndpoint s m) = Inl JsonSyntaxError"
    using r assms by (simp add: getAccessToken_near)
  have e: "\<forall>heap ref w'. ref < length heap \<and> heap ! ref = s \<and>
              refreshAccessToken w apiEndpoint (session_id s) = (Inr None, w') \<longrightarrow>
            getAccessToken_by_reference w heap ref apiEndpoint m =
              (Inr (token s, False, None), w', heap)"
    using fallback by (simp add: getAccessToken_by_reference_def)
  from fallback a b c d e f show ?thesis by simp
qed

theorem C3_fallback_when_refresh_yields_nothing_witness:
  "\<not> js_gt (timeUntilExpiry demo_world (demo_session 1180000)) (threshold_minutes None * 60000) \<and>
   fst (fetch demo_world (refresh_request ''ep'' ''R5'')) = Response False NotJson \<and>
   fst (getAccessToken demo_world ''ep'' ((demo_session 1180000)\<lparr>session_id := ''R5''\<rparr>) None) =
     Inr \<lparr>result_accessToken = ''T1'', refreshed = False, result_session = None\<rparr> \<and>
   fst (fetch demo_world (refresh_request ''ep'' ''R7'')) =
     Response True (Json (Value \<lparr>data = Value (no_data\<lparr>customerAccessTokenRefresh :=
                      Value \<lparr>customerAccessToken = Null\<rparr>\<rparr>)\<rparr>)) \<and>
   refreshAccessToken demo_world ''ep'' ''R7'' =
     (Inr None, demo_world\<lparr>clock := 1000040, sent := [refresh_request ''ep'' ''R7'']\<rparr>) \<and>
   getAccessToken demo_world ''ep'' ((demo_session 1180000)\<lparr>session_id := ''R7''\<rparr>) None =
     (Inr \<lparr>result_accessToken = ''T1'', refreshed = False, result_session = None\<rparr>,
      demo_world\<lparr>clock := 1000040, sent := [refresh_request ''ep'' ''R7'']\<rparr>) \<and>
   getAccessToken_by_reference demo_world
       [demo_session 7, (demo_session 1180000)\<lparr>session_id := ''R7''\<rparr>] 1 ''ep'' None =
     (Inr (''T1'', False, None),
      demo_world\<lparr>clock := 1000040, sent := [refresh_request ''ep'' ''R7'']\<rparr>,
      [demo_session 7, (demo_session 1180000)\<lparr>session_id := ''R7''\<rparr>]) \<and>
   fst (fetch demo_world (refresh_request ''ep'' ''RJ'')) = Response True NotJson \<and>
   fst (getAccessToken demo_world ''ep'' ((demo_session 1180000)\<lparr>session_id := ''RJ''\<rparr>) None) =
     Inl JsonSyntaxError \<and>
   fst (fetch offline_world (refresh_request ''ep'' ''R5'')) = Rejected \<and>
   fst (getAccessToken offline_world ''ep'' ((demo_session 1180000)\<lparr>session_id := ''R5''\<rparr>) None) =
     Inl NetworkError"
proof -
  let ?s5 = "(demo_session 1180000)\<lparr>session_id := ''R5''\<rparr>"
  let ?s7 = "(demo_session 1180000)\<lparr>session_id := ''R7''\<rparr>"
  let ?sj = "(demo_session 1180000)\<lparr>session_id := ''RJ''\<rparr>"
  let ?w7 = "demo_world\<lparr>clock := 1000040, sent := [refresh_request ''ep'' ''R7'']\<rparr>"
  let ?heap = "[demo_session 7, ?s7]"
  have near: "\<not> js_gt (timeUntilExpiry demo_world (demo_session 1180000))
                (threshold_minutes None * 60000)"
    by (simp add: demo_defs run_defs)
  have near5: "\<not> js_gt (timeUntilExpiry demo_world ?s5) (threshold_minutes None * 60000)"
    and near7: "\<not> js_gt (timeUntilExpiry demo_world ?s7) (threshold_minutes None * 60000)"
    and nearj: "\<not> js_gt (timeUntilExpiry demo_world ?sj) (threshold_minutes None * 60000)"
    and near_off: "\<not> js_gt (timeUntilExpiry offline_world ?s5) (threshold_minutes None * 60000)"
    by (simp_all add: demo_defs run_defs)
  have f5: "fst (fetch demo_world (refresh_request ''ep'' (session_id ?s5))) =
              Response False NotJson"
    by (simp add: demo_defs run_defs)
  have f7: "fst (fetch demo_world (refresh_request ''ep'' ''R7'')) =
     Response True (Json (Value \<lparr>data = Value (no_data\<lparr>customerAccessTokenRefresh :=
                      Value \<lparr>customerAccessToken = Null\<rparr>\<rparr>)\<rparr>))"
    by (simp add: demo_defs run_defs)
  have fj: "fst (fetch demo_world (refresh_request ''ep'' (session_id ?sj))) =
              Response True NotJson"
    by (simp add: demo_defs run_defs)
  have f_off: "fst (fetch offline_world (refresh_request ''ep'' (session_id ?s5))) = Rejected"
    by (simp add: demo_defs run_defs)
  have r7: "refreshAccessToken demo_world ''ep'' (session_id ?s7) = (Inr None, ?w7)"
    by (simp add: refreshAccessToken_def demo_defs run_defs)
  have g5: "fst (getAccessToken demo_world ''ep'' ?s5 None) =
     Inr \<lparr>result_accessToken = token ?s5, refreshed = False, result_session = None\<rparr>"
    using C3_fallback_when_refresh_yields_nothing [OF near5, of "''ep''"] f5 by blast
  have g7: "getAccessToken demo_world ''ep'' ?s7 None =
     (Inr \<lparr>result_accessToken = token ?s7, refreshed = False, result_session = None\<rparr>, ?w7)"
    using C3_fallback_when_refresh_yields_nothing [OF near7, of "''ep''"] r7 by blast
  have h7: "getAccessToken_by_reference demo_world ?heap 1 ''ep'' None =
     (Inr (token ?s7, False, None), ?w7, ?heap)"
  proof -
    have "1 < length ?heap \<and> ?heap ! 1 = ?s7 \<and>
          refreshAccessToken demo_world ''ep'' (session_id ?s7) = (Inr None, ?w7)"
      using r7 by simp
    with C3_fallback_when_refresh_yields_nothing [OF near7, of "''ep''"] show ?thesis
      by blast
  qed
  have gj: "fst (getAccessToken demo_world ''ep'' ?sj None) = Inl JsonSyntaxError"
    using C3_fallback_when_refresh_yields_nothing [OF nearj, of "''ep''"] fj by blast
  have g_off: "fst (getAccessToken offline_world ''ep'' ?s5 None) = Inl NetworkError"
    using C3_fallback_when_refresh_yields_nothing [OF near_off, of "''ep''"] f_off by blast
  have t5: "token ?s5 = ''T1''" and t7: "token ?s7 = ''T1''"
    by (simp_all add: demo_defs)
  have ids: "session_id ?s5 = ''R5''" "session_id ?s7 = ''R7''" "session_id ?sj = ''RJ''"
    by simp_all
  from near f5 f7 fj f_off r7 g5 g7 h7 gj g_off show ?thesis
    unfolding t5 t7 ids by blast
qed

section \<open>What a refresh changes\<close>

text \<open>
  C4. Whenever \<open>getAccessToken\<close> returns an updated session, that session has the
  input's \<open>createdAt\<close> and \<open>userId\<close>; it is the input with exactly the id, the token,
  \<open>expiresAt\<close> and \<open>updatedAt\<close> written, and the id and the token are the refresh token
  and the access token of one and the same refresh answer, the one whose access token
  is returned. No result carries a session in which only one of the two was written.
\<close>

theorem C4_refresh_frame:
  assumes "getAccessToken w apiEndpoint s m = (Inr res, w')"
    and "result_session res = Some s'"
  shows "createdAt s' = createdAt s \<and> userId s' = userId s \<and> refreshed res \<and>
         (\<exists>r. fst (refreshAccessToken w apiEndpoint (session_id s)) = Inr (Some r) \<and>
              result_accessToken res = accessToken r \<and>
              s' = s\<lparr>session_id := refreshToken r, token := accessToken r,
                     expiresAt := new_Date (Date_now w + expiresIn r * 1000),
                     updatedAt := Date (Date_now w)\<rparr>)"
proof (cases "js_gt (timeUntilExpiry w s) (threshold_minutes m * 60000)")
  case True
  with assms show ?thesis by (auto simp add: getAccessToken_far)
next
  case False
  with assms show ?thesis
    by (auto simp add: getAccessToken_near split: prod.splits sum.splits option.splits)
qed

theorem C4_refresh_frame_witness:
  "getAccessToken demo_world ''ep'' (demo_session 1180000) None =
     (Inr \<lparr>result_accessToken = ''T2'', refreshed = True,
           result_session = Some
             \<lparr>session_id = ''R2'', userId = ''u1'', createdAt = Date 5000,
              updatedAt = Date 1000000, token = ''T2'', expiresAt = Date 4600000\<rparr>\<rparr>,
      demo_world\<lparr>clock := 1000040, sent := [refresh_request ''ep'' ''R1'']\<rparr>) \<and>
   createdAt (demo_session 1180000) = Date 5000 \<and> userId (demo_session 1180000) = ''u1'' \<and>
   fst (refreshAccessToken demo_world ''ep'' (session_id (demo_session 1180000))) =
     Inr (Some \<lparr>accessToken = ''T2'', refreshToken = ''R2'', expiresIn = 3600\<rparr>)"
proof -
  let ?res = "\<lparr>result_accessToken = ''T2'', refreshed = True,
           result_session = Some
             \<lparr>session_id = ''R2'', userId = ''u1'', createdAt = Date 5000,
              updatedAt = Date 1000000, token = ''T2'', expiresAt = Date 4600000\<rparr>\<rparr>"
  let ?s' = "\<lparr>session_id = ''R2'', userId = ''u1'', createdAt = Date 5000,
              updatedAt = Date 1000000, token = ''T2'', expiresAt = Date 4600000\<rparr>"
  have run: "getAccessToken demo_world ''ep'' (demo_session 1180000) None =
     (Inr ?res, demo_world\<lparr>clock := 1000040, sent := [refresh_request ''ep'' ''R1'']\<rparr>)"
    by (simp add: getAccessToken_def refreshAccessToken_def Let_def demo_defs run_defs)
  have upd: "result_session ?res = Some ?s'" by simp
  from C4_refresh_frame [OF run upd]
  obtain r where
    c: "createdAt ?s' = createdAt (demo_session 1180000)"
       "userId ?s' = userId (demo_session 1180000)"
    and r: "fst (refreshAccessToken demo_world ''ep'' (session_id (demo_session 1180000))) =
          Inr (Some r)" "result_accessToken ?res = accessToken r"
       "?s' = (demo_session 1180000)\<lparr>session_id := refreshToken r, token := accessToken r,
                     expiresAt := new_Date (Date_now demo_world + expiresIn r * 1000),
                     updatedAt := Date (Date_now demo_world)\<rparr>"
    by blast
  from r(3) have "refreshToken r = ''R2'' \<and> accessToken r = ''T2'' \<and>
      new_Date (1000000 + expiresIn r * 1000) = Date 4600000"
    by (simp add: demo_defs Date_now_def max_time_def)
  then have "refreshToken r = ''R2'' \<and> accessToken r = ''T2'' \<and> expiresIn r = 3600"
    by (simp add: new_Date_def split: if_splits)
  then have "r = \<lparr>accessToken = ''T2'', refreshToken = ''R2'', expiresIn = 3600\<rparr>"
    by (cases r) simp
  with run c r(1) show ?thesis by simp
qed

section \<open>More on the token-lifecycle check\<close>

text \<open>
  C9, as stated, has the returned token differ from the session's old one after every
  successful refresh. The check hands on whatever the provider answers: when the answer
  carries the token the session already holds, the result is \<open>refreshed = true\<close> with
  that same token.
\<close>

theorem C9_same_token_counterexample:
  "\<not> js_gt (timeUntilExpiry demo_world ((demo_session 1180000)\<lparr>token := ''T2''\<rparr>))
        (threshold_minutes None * 60000) \<and>
   fst (refreshAccessToken demo_world ''ep''
          (session_id ((demo_session 1180000)\<lparr>token := ''T2''\<rparr>))) =
     Inr (Some \<lparr>accessToken = ''T2'', refreshToken = ''R2'', expiresIn = 3600\<rparr>) \<and>
   fst (getAccessToken demo_world ''ep'' ((demo_session 1180000)\<lparr>token := ''T2''\<rparr>) None) =
     Inr \<lparr>result_accessToken = ''T2'', refreshed = True,
          result_session = Some
            \<lparr>session_id = ''R2'', userId = ''u1'', createdAt = Date 5000,
             updatedAt = Date 1000000, token = ''T2'', expiresAt = Date 4600000\<rparr>\<rparr> \<and>
   token ((demo_session 1180000)\<lparr>token := ''T2''\<rparr>) = ''T2''"
  by (simp add: getAccessToken_def refreshAccessToken_def Let_def demo_defs run_defs)

text \<open>
  C9, amended. When the time until expiry is not above the threshold (already expired
  included) and the refresh call yields a token set, the check returns
  \<open>refreshed = true\<close> and the access token of that token set, which differs from the
  old one exactly when the provider issued a different one, with an updated session
  whose \<open>createdAt\<close> is the original and whose \<open>updatedAt\<close> is the clock reading at
  the start of the call.
\<close>

theorem C9_refresh_returns_provider_token:
  assumes "\<not> js_gt (timeUntilExpiry w s) (threshold_minutes m * 60000)"
    and "refreshAccessToken w apiEndpoint (session_id s) = (Inr (Some r), w')"
  shows "\<exists>res s'. getAccessToken w apiEndpoint s m = (Inr res, w') \<and>
           refreshed res \<and> result_accessToken res = accessToken r \<and>
           (result_accessToken res \<noteq> token s \<longleftrightarrow> accessToken r \<noteq> token s) \<and>
           result_session res = Some s' \<and> createdAt s' = createdAt s \<and>
           updatedAt s' = Date (Date_now w) \<and>
           (\<exists>t. getTime (updatedAt s') = Some t \<and> t \<ge> Date_now w)"
  using assms by (simp add: getAccessToken_near getTime_def)

theorem C9_refresh_returns_provider_token_witness:
  "\<not> js_gt (timeUntilExpiry demo_world (demo_session 940000)) (threshold_minutes None * 60000) \<and>
   timeUntilExpiry demo_world (demo_session 940000) = Some (- 60000) \<and>
   refreshAccessToken demo_world ''ep'' (session_id (demo_session 940000)) =
     (Inr (Some \<lparr>accessToken = ''T2'', refreshToken = ''R2'', expiresIn = 3600\<rparr>),
      demo_world\<lparr>clock := 1000040, sent := [refresh_request ''ep'' ''R1'']\<rparr>) \<and>
   (\<exists>res s'. getAccessToken demo_world ''ep'' (demo_session 940000) None =
        (Inr res, demo_world\<lparr>clock := 1000040, sent := [refresh_request ''ep'' ''R1'']\<rparr>) \<and>
      refreshed res \<and> result_accessToken res = ''T2'' \<and>
      result_accessToken res \<noteq> token (demo_session 940000) \<and>
      result_session res = Some s' \<and> createdAt s' = Date 5000 \<and>
      updatedAt s' = Date 1000000)"
proof -
  let ?w' = "demo_world\<lparr>clock := 1000040, sent := [refresh_request ''ep'' ''R1'']\<rparr>"
  let ?r = "\<lparr>accessToken = ''T2'', refreshToken = ''R2'', expiresIn = 3600\<rparr>"
  have near: "\<not> js_gt (timeUntilExpiry demo_world (demo_session 940000))
                (threshold_minutes None * 60000)"
    and expired: "timeUntilExpiry demo_world (demo_session 940000) = Some (- 60000)"
    by (simp_all add: demo_defs run_defs)
  have call: "refreshAccessToken demo_world ''ep'' (session_id (demo_session 940000)) =
                (Inr (Some ?r), ?w')"
    by (simp add: refreshAccessToken_def demo_defs run_defs)
  have facts: "accessToken ?r = ''T2''" "accessToken ?r \<noteq> token (demo_session 940000)"
    "createdAt (demo_session 940000) = Date 5000" "Date_now demo_world = 1000000"
    by (simp_all add: demo_defs run_defs)
  from C9_refresh_returns_provider_token [OF near call]
  obtain res s' where
    "getAccessToken demo_world ''ep'' (demo_session 940000) None = (Inr res, ?w')"
    "refreshed res" "result_accessToken res = accessToken ?r"
    "result_accessToken res \<noteq> token (demo_session 940000) \<longleftrightarrow>
       accessToken ?r \<noteq> token (demo_session 940000)"
    "result_session res = Some s'" "createdAt s' = createdAt (demo_session 940000)"
    "updatedAt s' = Date (Date_now demo_world)"
    by blast
  with facts have "\<exists>res s'. getAccessToken demo_world ''ep'' (demo_session 940000) None =
        (Inr res, ?w') \<and>
      refreshed res \<and> result_accessToken res = ''T2'' \<and>
      result_accessToken res \<noteq> token (demo_session 940000) \<and>
      result_session res = Some s' \<and> createdAt s' = Date 5000 \<and>
      updatedAt s' = Date 1000000"
    by (metis (no_types))
  with near expired call show ?thesis by blast
qed

text \<open>
  C10, as stated, has \<open>expiresAt\<close> equal to exactly now + expiresIn * 1000 ms for every
  integer \<open>expiresIn\<close>. For the session that has already expired and the provider that
  answers with expiresIn = 8640000000000, the refresh succeeds and the updated
  session's \<open>expiresAt\<close> is Invalid Date: the sum lies beyond the last \<open>Date\<close>.
\<close>

theorem C10_beyond_date_range_counterexample:
  "timeUntilExpiry demo_world ((demo_session 940000)\<lparr>session_id := ''RH''\<rparr>) = Some (- 60000) \<and>
   fst (fetch demo_world (refresh_request ''ep'' ''RH'')) =
     Response True (Json (Value \<lparr>data = Value (no_data\<lparr>customerAccessTokenRefresh :=
        Value \<lparr>customerAccessToken =
          Value \<lparr>accessToken = ''TH2'', refreshToken = ''RH2'',
                 expiresIn = 8640000000000\<rparr>\<rparr>\<rparr>)\<rparr>)) \<and>
   Date_now demo_world + 8640000000000 * 1000 = 8640000001000000 \<and>
   fst (getAccessToken demo_world ''ep'' ((demo_session 940000)\<lparr>session_id := ''RH''\<rparr>) None) =
     Inr \<lparr>result_accessToken = ''TH2'', refreshed = True,
          result_session = Some
            \<lparr>session_id = ''RH2'', userId = ''u1'', createdAt = Date 5000,
             updatedAt = Date 1000000, token = ''TH2'', expiresAt = Invalid_Date\<rparr>\<rparr>"
  by (simp add: getAccessToken_def refreshAccessToken_def Let_def demo_defs run_defs)

text \<open>
  C10, amended. \<open>expiresIn\<close> goes unchecked from the provider's token node into the
  session: whatever integer it is, a refresh gives \<open>refreshed = true\<close> and
  \<open>expiresAt = new Date(now + expiresIn * 1000)\<close>, which is exactly now + expiresIn *
  1000 ms when that lies within 8.64e15 ms of the epoch and Invalid Date otherwise.
  With \<open>expiresIn\<close> at most 0 the new session is already expired or its date is invalid,
  and with expiresIn * 1000 at most the threshold it is already due for the next
  refresh.
\<close>

theorem C10_expiresIn_not_validated:
  assumes "\<not> js_gt (timeUntilExpiry w s) (threshold_minutes m * 60000)"
    and "fst (fetch w (refresh_request apiEndpoint (session_id s))) = Response True (Json json)"
    and "refresh_token_node json = Value n"
  shows "\<exists>res s'. fst (getAccessToken w apiEndpoint s m) = Inr res \<and>
           refreshed res \<and> result_session res = Some s' \<and>
           expiresAt s' =
             (if \<bar>Date_now w + expiresIn n * 1000\<bar> \<le> 8640000000000000
              then Date (Date_now w + expiresIn n * 1000)
              else Invalid_Date) \<and>
           (expiresIn n \<le> 0 \<longrightarrow>
              expiresAt s' = Invalid_Date \<or>
              (\<exists>t. expiresAt s' = Date t \<and> t \<le> Date_now w)) \<and>
           (expiresIn n * 1000 \<le> threshold_minutes m * 60000 \<longrightarrow>
              \<not> js_gt (js_minus (getTime (expiresAt s')) (Date_now w))
                   (threshold_minutes m * 60000))"
proof -
  obtain out w1 where f: "fetch w (refresh_request apiEndpoint (session_id s)) = (out, w1)"
    by (cases "fetch w (refresh_request apiEndpoint (session_id s))")
  with assms(2,3) refreshAccessToken_cases [OF f]
  have "refreshAccessToken w apiEndpoint (session_id s) = (Inr (Some n), w1)"
    by simp
  with assms(1) show ?thesis
    by (simp add: getAccessToken_near new_Date_def max_time_def getTime_def js_minus_def
        js_gt_def)
qed

theorem C10_expiresIn_not_validated_witness:
  "\<not> js_gt (timeUntilExpiry demo_world ((demo_session 1180000)\<lparr>session_id := ''R9''\<rparr>))
        (threshold_minutes None * 60000) \<and>
   fst (fetch demo_world (refresh_request ''ep'' ''R9'')) =
     Response True (Json (Value \<lparr>data = Value (no_data\<lparr>customerAccessTokenRefresh :=
        Value \<lparr>customerAccessToken =
          Value \<lparr>accessToken = ''T9'', refreshToken = ''R9'', expiresIn = - 60\<rparr>\<rparr>\<rparr>)\<rparr>)) \<and>
   (\<exists>res s'. fst (getAccessToken demo_world ''ep''
                    ((demo_session 1180000)\<lparr>session_id := ''R9''\<rparr>) None) = Inr res \<and>
      refreshed res \<and> result_session res = Some s' \<and> expiresAt s' = Date 940000 \<and>
      940000 \<le> Date_now demo_world)"
proof -
  let ?s = "(demo_session 1180000)\<lparr>session_id := ''R9''\<rparr>"
  let ?n = "\<lparr>accessToken = ''T9'', refreshToken = ''R9'', expiresIn = - 60\<rparr>"
  let ?json = "Value \<lparr>data = Value (no_data\<lparr>customerAccessTokenRefresh :=
        Value \<lparr>customerAccessToken = Value ?n\<rparr>\<rparr>)\<rparr>"
  have near: "\<not> js_gt (timeUntilExpiry demo_world ?s) (threshold_minutes None * 60000)"
    by (simp add: demo_defs run_defs)
  have f: "fst (fetch demo_world (refresh_request ''ep'' (session_id ?s))) =
             Response True (Json ?json)"
    by (simp add: demo_defs run_defs)
  have n: "refresh_token_node ?json = Value ?n"
    by (simp add: demo_defs run_defs)
  have facts: "(if \<bar>Date_now demo_world + expiresIn ?n * 1000\<bar> \<le> 8640000000000000
              then Date (Date_now demo_world + expiresIn ?n * 1000)
              else Invalid_Date) = Date 940000" "940000 \<le> Date_now demo_world"
    by (simp_all add: demo_defs run_defs)
  from C10_expiresIn_not_validated [OF near f n]
  obtain res s' where
    "fst (getAccessToken demo_world ''ep'' ?s None) = Inr res" "refreshed res"
    "result_session res = Some s'"
    "expiresAt s' = (if \<bar>Date_now demo_world + expiresIn ?n * 1000\<bar> \<le> 8640000000000000
              then Date (Date_now demo_world + expiresIn ?n * 1000)
              else Invalid_Date)"
    by blast
  with facts have "\<exists>res s'. fst (getAccessToken demo_world ''ep'' ?s None) = Inr res \<and>
      refreshed res \<and> result_session res = Some s' \<and> expiresAt s' = Date 940000 \<and>
      940000 \<le> Date_now demo_world"
    by (metis (no_types))
  moreover have "session_id ?s = ''R9''" by simp
  ultimately show ?thesis using near f by simp
qed

section \<open>Session bootstrap\<close>

text \<open>
  C5. With either user-info file: when Login yields no result, the bootstrap returns
  \<open>{error: "Invalid credentials", status: 401}\<close> and the only request sent is the login
  request; when Login yields tokens and Profile fetch yields no result, it returns
  \<open>{error: "Failed to fetch user info", status: 500}\<close>; and in every run the requests
  sent are the login request alone, or the login request followed by the profile
  request that carries the access token Login returned.
\<close>

theorem C5_bootstrap_failures:
  assumes "g = getUserInfo \<or> g = getUserInfo_part_006"
  shows "(\<forall>w1. callIdpLogin w apiEndpoint \<lparr>input_email = e, input_password = p\<rparr> = (Inr None, w1) \<longrightarrow>
            authenticateAndCreateSession g w apiEndpoint e p =
              (Inr (Inl \<lparr>error = ''Invalid credentials'', status = 401\<rparr>), w1) \<and>
            sent w1 = sent w @ [login_request apiEndpoint \<lparr>input_email = e, input_password = p\<rparr>]) \<and>
         (\<forall>t w1 w2. callIdpLogin w apiEndpoint \<lparr>input_email = e, input_password = p\<rparr> = (Inr (Some t), w1) \<and>
              g w1 apiEndpoint (accessToken t) = (Inr None, w2) \<longrightarrow>
            authenticateAndCreateSession g w apiEndpoint e p =
              (Inr (Inl \<lparr>error = ''Failed to fetch user info'', status = 500\<rparr>), w2)) \<and>
         (sent (snd (authenticateAndCreateSession g w apiEndpoint e p)) =
            sent w @ [login_request apiEndpoint \<lparr>input_email = e, input_password = p\<rparr>] \<or>
          (\<exists>t. fst (callIdpLogin w apiEndpoint \<lparr>input_email = e, input_password = p\<rparr>) = Inr (Some t) \<and>
               sent (snd (authenticateAndCreateSession g w apiEndpoint e p)) =
                 sent w @ [login_request apiEndpoint \<lparr>input_email = e, input_password = p\<rparr>,
                           profile_request apiEndpoint (accessToken t)]))"
proof (intro conjI allI impI)
  fix w1
  assume a: "callIdpLogin w apiEndpoint \<lparr>input_email = e, input_password = p\<rparr> = (Inr None, w1)"
  then show "authenticateAndCreateSession g w apiEndpoint e p =
              (Inr (Inl \<lparr>error = ''Invalid credentials'', status = 401\<rparr>), w1)"
    by (simp add: authenticateAndCreateSession_def)
  from callIdpLogin_sent [of w apiEndpoint "\<lparr>input_email = e, input_password = p\<rparr>"] a
  show "sent w1 = sent w @ [login_request apiEndpoint \<lparr>input_email = e, input_password = p\<rparr>]"
    by simp
next
  fix t w1 w2
  assume "callIdpLogin w apiEndpoint \<lparr>input_email = e, input_password = p\<rparr> = (Inr (Some t), w1) \<and>
              g w1 apiEndpoint (accessToken t) = (Inr None, w2)"
  then show "authenticateAndCreateSession g w apiEndpoint e p =
              (Inr (Inl \<lparr>error = ''Failed to fetch user info'', status = 500\<rparr>), w2)"
    by (simp add: authenticateAndCreateSession_def Let_def)
next
  let ?inp = "\<lparr>input_email = e, input_password = p\<rparr>"
  obtain r w1 where c: "callIdpLogin w apiEndpoint ?inp = (r, w1)"
    by (cases "callIdpLogin w apiEndpoint ?inp")
  with callIdpLogin_sent [of w apiEndpoint ?inp]
  have s1: "sent w1 = sent w @ [login_request apiEndpoint ?inp]" by simp
  have g_sent: "\<And>w0 t. sent (snd (g w0 apiEndpoint t)) = sent w0 @ [profile_request apiEndpoint t]"
    using assms getUserInfo_sent getUserInfo_part_006_sent by auto
  show "sent (snd (authenticateAndCreateSession g w apiEndpoint e p)) =
            sent w @ [login_request apiEndpoint ?inp] \<or>
          (\<exists>t. fst (callIdpLogin w apiEndpoint ?inp) = Inr (Some t) \<and>
               sent (snd (authenticateAndCreateSession g w apiEndpoint e p)) =
                 sent w @ [login_request apiEndpoint ?inp,
                           profile_request apiEndpoint (accessToken t)])"
  proof (cases r)
    case (Inl err)
    with c s1 show ?thesis by (simp add: authenticateAndCreateSession_def)
  next
    case (Inr o1)
    show ?thesis
    proof (cases o1)
      case None
      with Inr c s1 show ?thesis by (simp add: authenticateAndCreateSession_def)
    next
      case (Some t)
      obtain r2 w2 where g2: "g w1 apiEndpoint (accessToken t) = (r2, w2)"
        by (cases "g w1 apiEndpoint (accessToken t)")
      with g_sent [of w1 "accessToken t"] s1
      have s2: "sent w2 = sent w @ [login_request apiEndpoint ?inp,
                           profile_request apiEndpoint (accessToken t)]" by simp
      have "snd (authenticateAndCreateSession g w apiEndpoint e p) = w2"
        using c Inr Some g2
        by (simp add: authenticateAndCreateSession_def Let_def split: sum.splits option.splits)
      with s2 c Inr Some show ?thesis by simp
    qed
  qed
qed

theorem C5_bootstrap_failures_witness:
  "(getUserInfo = getUserInfo \<or> getUserInfo = getUserInfo_part_006) \<and>
   callIdpLogin demo_world ''ep'' \<lparr>input_email = ''ada@example.com'', input_password = ''bad''\<rparr> =
     (Inr None, demo_world\<lparr>clock := 1000040,
        sent := [login_request ''ep'' \<lparr>input_email = ''ada@example.com'', input_password = ''bad''\<rparr>]\<rparr>) \<and>
   authenticateAndCreateSession getUserInfo demo_world ''ep'' ''ada@example.com'' ''bad'' =
     (Inr (Inl \<lparr>error = ''Invalid credentials'', status = 401\<rparr>),
      demo_world\<lparr>clock := 1000040,
        sent := [login_request ''ep'' \<lparr>input_email = ''ada@example.com'', input_password = ''bad''\<rparr>]\<rparr>) \<and>
   callIdpLogin demo_world ''ep'' \<lparr>input_email = ''bob@example.com'', input_password = ''pw''\<rparr> =
     (Inr (Some \<lparr>accessToken = ''TB'', refreshToken = ''RB'', expiresIn = 3600\<rparr>),
      demo_world\<lparr>clock := 1000040,
        sent := [login_request ''ep'' \<lparr>input_email = ''bob@example.com'', input_password = ''pw''\<rparr>]\<rparr>) \<and>
   authenticateAndCreateSession getUserInfo demo_world ''ep'' ''bob@example.com'' ''pw'' =
     (Inr (Inl \<lparr>error = ''Failed to fetch user info'', status = 500\<rparr>),
      demo_world\<lparr>clock := 1000290,
        sent := [login_request ''ep'' \<lparr>input_email = ''bob@example.com'', input_password = ''pw''\<rparr>,
                 profile_request ''ep'' ''TB'']\<rparr>)"
proof -
  let ?bad = "\<lparr>input_email = ''ada@example.com'', input_password = ''bad''\<rparr>"
  let ?bob = "\<lparr>input_email = ''bob@example.com'', input_password = ''pw''\<rparr>"
  let ?tb = "\<lparr>accessToken = ''TB'', refreshToken = ''RB'', expiresIn = 3600\<rparr>"
  let ?w1 = "demo_world\<lparr>clock := 1000040, sent := [login_request ''ep'' ?bad]\<rparr>"
  let ?v1 = "demo_world\<lparr>clock := 1000040, sent := [login_request ''ep'' ?bob]\<rparr>"
  let ?v2 = "demo_world\<lparr>clock := 1000290,
               sent := [login_request ''ep'' ?bob, profile_request ''ep'' ''TB'']\<rparr>"
  have g: "getUserInfo = getUserInfo \<or> getUserInfo = getUserInfo_part_006" by simp
  have login_bad: "callIdpLogin demo_world ''ep'' ?bad = (Inr None, ?w1)"
    by (simp add: callIdpLogin_def demo_defs run_defs)
  have login_bob: "callIdpLogin demo_world ''ep'' ?bob = (Inr (Some ?tb), ?v1)"
    by (simp add: callIdpLogin_def demo_defs run_defs)
  have profile_bob: "getUserInfo ?v1 ''ep'' (accessToken ?tb) = (Inr None, ?v2)"
    by (simp add: getUserInfo_def demo_defs run_defs)
  have r_bad:
    "authenticateAndCreateSession getUserInfo demo_world ''ep'' ''ada@example.com'' ''bad'' =
       (Inr (Inl \<lparr>error = ''Invalid credentials'', status = 401\<rparr>), ?w1)"
    using C5_bootstrap_failures [OF g, of demo_world "''ep''" "''ada@example.com''" "''bad''"]
      login_bad
    by blast
  have r_bob:
    "authenticateAndCreateSession getUserInfo demo_world ''ep'' ''bob@example.com'' ''pw'' =
       (Inr (Inl \<lparr>error = ''Failed to fetch user info'', status = 500\<rparr>), ?v2)"
    using C5_bootstrap_failures [OF g, of demo_world "''ep''" "''bob@example.com''" "''pw''"]
      login_bob profile_bob
    by blast
  from g login_bad login_bob r_bad r_bob show ?thesis by simp
qed

text \<open>
  C6, as stated, has the timestamps equal the clock reading at the start of step 3, the
  construction that follows the Profile fetch, and \<open>expiresAt\<close> equal to now + expiresIn
  * 1000 ms for every Login result. The code reads the clock once, right after Login
  returns and before the Profile fetch is sent: for ada Login returns at 1000040 and
  the Profile fetch at 1000290, and every timestamp is 1000040, with \<open>expiresAt\<close> at
  1000040 + 3600 * 1000. And \<open>expiresAt\<close> is \<open>new Date(now + expiresIn * 1000)\<close>: for
  eve, whose tokens live 8640000000000 seconds, it is Invalid Date.
\<close>

theorem C6_now_counterexample:
  "authenticateAndCreateSession getUserInfo demo_world ''ep'' ''ada@example.com'' ''pw'' =
     (Inr (Inr \<lparr>sd_user =
                  \<lparr>user_id = ''u1'', user_email = ''ada@example.com'',
                   user_name = ''Ada Lovelace'', user_createdAt = Date 1000040,
                   user_updatedAt = Date 1000040, emailVerified = True, user_groups = None\<rparr>,
                sd_session =
                  \<lparr>session_id = ''R1'', userId = ''u1'', createdAt = Date 1000040,
                   updatedAt = Date 1000040, token = ''T1'', expiresAt = Date 4600040\<rparr>\<rparr>),
      demo_world\<lparr>clock := 1000290,
        sent := [login_request ''ep'' \<lparr>input_email = ''ada@example.com'', input_password = ''pw''\<rparr>,
                 profile_request ''ep'' ''T1'']\<rparr>) \<and>
   Date_now (snd (getUserInfo
      (snd (callIdpLogin demo_world ''ep''
              \<lparr>input_email = ''ada@example.com'', input_password = ''pw''\<rparr>)) ''ep'' ''T1'')) = 1000290 \<and>
   fst (callIdpLogin demo_world ''ep''
          \<lparr>input_email = ''eve@example.com'', input_password = ''pw''\<rparr>) =
     Inr (Some \<lparr>accessToken = ''TH'', refreshToken = ''RH'', expiresIn = 8640000000000\<rparr>) \<and>
   fst (authenticateAndCreateSession getUserInfo demo_world ''ep'' ''eve@example.com'' ''pw'') =
     Inr (Inr \<lparr>sd_user =
                 \<lparr>user_id = ''u1'', user_email = ''ada@example.com'',
                  user_name = ''Ada Lovelace'', user_createdAt = Date 1000040,
                  user_updatedAt = Date 1000040, emailVerified = True, user_groups = None\<rparr>,
               sd_session =
                 \<lparr>session_id = ''RH'', userId = ''u1'', createdAt = Date 1000040,
                  updatedAt = Date 1000040, token = ''TH'', expiresAt = Invalid_Date\<rparr>\<rparr>)"
  by (simp add: authenticateAndCreateSession_def callIdpLogin_def getUserInfo_def Let_def
      demo_defs run_defs)

text \<open>
  C6, amended. With either user-info file: when Login yields
  \<open>{accessToken, refreshToken, expiresIn}\<close> and Profile fetch yields a profile, the
  bootstrap returns one value with session id = the refresh token, session token = the
  access token, session userId = the profile's id, user name = firstName, a space,
  lastName, emailVerified = true, and the four createdAt/updatedAt timestamps equal to
  a single now. \<open>expiresAt\<close> is now + expiresIn * 1000 ms when that lies within 8.64e15
  ms of the epoch, and Invalid Date otherwise. That now is the clock reading when Login
  has returned, taken before the profile request is sent; it is not later than the
  moment the Profile fetch returns.
\<close>

theorem C6_bootstrap_success:
  assumes "g = getUserInfo \<or> g = getUserInfo_part_006"
    and "callIdpLogin w apiEndpoint \<lparr>input_email = e, input_password = p\<rparr> = (Inr (Some t), w1)"
    and "g w1 apiEndpoint (accessToken t) = (Inr (Some u), w2)"
  shows "authenticateAndCreateSession g w apiEndpoint e p =
           (Inr (Inr \<lparr>sd_user =
                        \<lparr>user_id = info_id u, user_email = email u,
                         user_name = firstName u @ '' '' @ lastName u,
                         user_createdAt = Date (Date_now w1),
                         user_updatedAt = Date (Date_now w1),
                         emailVerified = True, user_groups = groups u\<rparr>,
                      sd_session =
                        \<lparr>session_id = refreshToken t, userId = info_id u,
                         createdAt = Date (Date_now w1), updatedAt = Date (Date_now w1),
                         token = accessToken t,
                         expiresAt =
                           (if \<bar>Date_now w1 + expiresIn t * 1000\<bar> \<le> 8640000000000000
                            then Date (Date_now w1 + expiresIn t * 1000)
                            else Invalid_Date)\<rparr>\<rparr>), w2) \<and>
         sent w1 = sent w @ [login_request apiEndpoint \<lparr>input_email = e, input_password = p\<rparr>] \<and>
         sent w2 = sent w1 @ [profile_request apiEndpoint (accessToken t)] \<and>
         Date_now w1 \<le> Date_now w2"
proof -
  let ?inp = "\<lparr>input_email = e, input_password = p\<rparr>"
  have run: "authenticateAndCreateSession g w apiEndpoint e p =
           (Inr (Inr \<lparr>sd_user =
                        \<lparr>user_id = info_id u, user_email = email u,
                         user_name = firstName u @ '' '' @ lastName u,
                         user_createdAt = Date (Date_now w1),
                         user_updatedAt = Date (Date_now w1),
                         emailVerified = True, user_groups = groups u\<rparr>,
                      sd_session =
                        \<lparr>session_id = refreshToken t, userId = info_id u,
                         createdAt = Date (Date_now w1), updatedAt = Date (Date_now w1),
                         token = accessToken t,
                         expiresAt =
                           (if \<bar>Date_now w1 + expiresIn t * 1000\<bar> \<le> 8640000000000000
                            then Date (Date_now w1 + expiresIn t * 1000)
                            else Invalid_Date)\<rparr>\<rparr>), w2)"
    using assms(2,3)
    by (simp add: authenticateAndCreateSession_def Let_def new_Date_now)
       (simp add: new_Date_def max_time_def)
  have s1: "sent w1 = sent w @ [login_request apiEndpoint ?inp]"
    using callIdpLogin_sent [of w apiEndpoint ?inp] assms(2) by simp
  have s2: "sent w2 = sent w1 @ [profile_request apiEndpoint (accessToken t)]"
    using assms(1,3) getUserInfo_sent [of w1 apiEndpoint "accessToken t"]
      getUserInfo_part_006_sent [of w1 apiEndpoint "accessToken t"]
    by auto
  have c: "Date_now w1 \<le> Date_now w2"
    using assms(1,3) getUserInfo_clock [of w1 apiEndpoint "accessToken t"]
      getUserInfo_part_006_clock [of w1 apiEndpoint "accessToken t"]
    by auto
  from run s1 s2 c show ?thesis by simp
qed

theorem C6_bootstrap_success_witness:
  "(getUserInfo_part_006 = getUserInfo \<or> getUserInfo_part_006 = getUserInfo_part_006) \<and>
   callIdpLogin demo_world ''ep'' \<lparr>input_email = ''ada@example.com'', input_password = ''pw''\<rparr> =
     (Inr (Some \<lparr>accessToken = ''T1'', refreshToken = ''R1'', expiresIn = 3600\<rparr>),
      demo_world\<lparr>clock := 1000040,
        sent := [login_request ''ep'' \<lparr>input_email = ''ada@example.com'', input_password = ''pw''\<rparr>]\<rparr>) \<and>
   authenticateAndCreateSession getUserInfo_part_006 demo_world ''ep'' ''ada@example.com'' ''pw'' =
     (Inr (Inr \<lparr>sd_user =
                  \<lparr>user_id = ''u1'', user_email = ''ada@example.com'',
                   user_name = ''Ada Lovelace'', user_createdAt = Date 1000040,
                   user_updatedAt = Date 1000040, emailVerified = True,
                   user_groups = Some [\<lparr>group_id = ''g1'', group_name = ''VIP''\<rparr>]\<rparr>,
                sd_session =
                  \<lparr>session_id = ''R1'', userId = ''u1'', createdAt = Date 1000040,
                   updatedAt = Date 1000040, token = ''T1'', expiresAt = Date 4600040\<rparr>\<rparr>),
      demo_world\<lparr>clock := 1000290,
        sent := [login_request ''ep'' \<lparr>input_email = ''ada@example.com'', input_password = ''pw''\<rparr>,
                 profile_request ''ep'' ''T1'']\<rparr>)"
proof -
  let ?inp = "\<lparr>input_email = ''ada@example.com'', input_password = ''pw''\<rparr>"
  let ?t = "\<lparr>accessToken = ''T1'', refreshToken = ''R1'', expiresIn = 3600\<rparr>"
  let ?u = "\<lparr>info_id = ''u1'', firstName = ''Ada'', lastName = ''Lovelace'',
             email = ''ada@example.com'',
             groups = Some [\<lparr>group_id = ''g1'', group_name = ''VIP''\<rparr>]\<rparr>"
  let ?w1 = "demo_world\<lparr>clock := 1000040, sent := [login_request ''ep'' ?inp]\<rparr>"
  let ?w2 = "demo_world\<lparr>clock := 1000290,
               sent := [login_request ''ep'' ?inp, profile_request ''ep'' ''T1'']\<rparr>"
  have g: "getUserInfo_part_006 = getUserInfo \<or> getUserInfo_part_006 = getUserInfo_part_006"
    by simp
  have login: "callIdpLogin demo_world ''ep'' ?inp = (Inr (Some ?t), ?w1)"
    by (simp add: callIdpLogin_def demo_defs run_defs)
  have profile: "getUserInfo_part_006 ?w1 ''ep'' (accessToken ?t) = (Inr (Some ?u), ?w2)"
    by (simp add: getUserInfo_part_006_def demo_defs run_defs)
  from C6_bootstrap_success [OF g login profile] g login show ?thesis
    by (simp add: demo_defs run_defs)
qed

section \<open>Group memberships\<close>

text \<open>
  What the second user-info file does with the provider's group list: the entries are
  mapped one by one, in order, and a missing list (at either level) gives the empty
  list.
\<close>

lemma map_groups_Value:
  "map_groups (map Value ns) =
     Inr (map (\<lambda>n. \<lparr>group_id = node_id n, group_name = node_name n\<rparr>) ns)"
  by (induction ns) simp_all

lemma map_groups_length: "map_groups gs = Inr r \<Longrightarrow> length r = length gs"
  by (induction gs arbitrary: r) (auto split: nullable.splits sum.splits)

lemma customer_group_list_omitted:
  "customerGroups c = Undefined \<or> customerGroups c = Null \<or>
   (\<exists>cg. customerGroups c = Value cg \<and> (nodes cg = Undefined \<or> nodes cg = Null))
   \<Longrightarrow> customer_group_list c = Inr []"
  by (auto simp add: customer_group_list_def opt_chain_def)

lemma customer_group_list_present:
  "customerGroups c = Value cg \<Longrightarrow> nodes cg = Value (map Value ns) \<Longrightarrow>
   customer_group_list c =
     Inr (map (\<lambda>n. \<lparr>group_id = node_id n, group_name = node_name n\<rparr>) ns)"
  by (simp add: customer_group_list_def opt_chain_def map_groups_Value)

lemma getUserInfo_part_006_groups:
  assumes "fst (getUserInfo_part_006 w apiEndpoint t) = Inr (Some u)"
  shows "\<exists>json c gs. fst (fetch w (profile_request apiEndpoint t)) = Response True (Json json) \<and>
           customer_of json = Value c \<and> customer_group_list c = Inr gs \<and> groups u = Some gs"
  using assms
  by (auto simp add: getUserInfo_part_006_def
      split: prod.splits fetch_outcome.splits body.splits nullable.splits sum.splits if_splits)

lemma getUserInfo_no_groups:
  "fst (getUserInfo w apiEndpoint t) = Inr (Some u) \<Longrightarrow> groups u = None"
  by (auto simp add: getUserInfo_def
      split: prod.splits fetch_outcome.splits body.splits nullable.splits if_splits)

text \<open>
  C7 does not hold for helpers/user-info.ts. The provider answers with one group
  (g1, VIP); the second user-info file returns it as \<open>groups\<close>, while the function of
  helpers/user-info.ts returns a profile without \<open>groups\<close>, and the user bootstrapped
  from it has none either.
\<close>

theorem C7_getUserInfo_drops_groups:
  "fst (fetch demo_world (profile_request ''ep'' ''T1'')) =
     Response True (Json (Value \<lparr>data = Value (no_data\<lparr>customer := Value demo_customer\<rparr>)\<rparr>)) \<and>
   customer_group_list demo_customer = Inr [\<lparr>group_id = ''g1'', group_name = ''VIP''\<rparr>] \<and>
   fst (getUserInfo_part_006 demo_world ''ep'' ''T1'') =
     Inr (Some \<lparr>info_id = ''u1'', firstName = ''Ada'', lastName = ''Lovelace'',
                email = ''ada@example.com'',
                groups = Some [\<lparr>group_id = ''g1'', group_name = ''VIP''\<rparr>]\<rparr>) \<and>
   fst (getUserInfo demo_world ''ep'' ''T1'') =
     Inr (Some \<lparr>info_id = ''u1'', firstName = ''Ada'', lastName = ''Lovelace'',
                email = ''ada@example.com'', groups = None\<rparr>) \<and>
   fst (authenticateAndCreateSession getUserInfo demo_world ''ep'' ''ada@example.com'' ''pw'') =
     Inr (Inr \<lparr>sd_user =
                 \<lparr>user_id = ''u1'', user_email = ''ada@example.com'',
                  user_name = ''Ada Lovelace'', user_createdAt = Date 1000040,
                  user_updatedAt = Date 1000040, emailVerified = True, user_groups = None\<rparr>,
               sd_session =
                 \<lparr>session_id = ''R1'', userId = ''u1'', createdAt = Date 1000040,
                  updatedAt = Date 1000040, token = ''T1'', expiresAt = Date 4600040\<rparr>\<rparr>)"
  by (simp add: authenticateAndCreateSession_def callIdpLogin_def getUserInfo_def
      getUserInfo_part_006_def Let_def demo_defs run_defs)

section \<open>Login\<close>

text \<open>
  C8, as stated, has the Login call return the token triple or null on every
  invocation, a transport failure giving the same null as a credential rejection. With
  the network down \<open>fetch\<close> rejects and \<open>callIdpLogin\<close>, which has no handler, raises;
  rejected credentials give null.
\<close>

theorem C8_transport_failure_counterexample:
  "fst (fetch offline_world
          (login_request ''ep'' \<lparr>input_email = ''ada@example.com'', input_password = ''pw''\<rparr>)) =
     Rejected \<and>
   fst (callIdpLogin offline_world ''ep''
          \<lparr>input_email = ''ada@example.com'', input_password = ''pw''\<rparr>) = Inl NetworkError \<and>
   fst (callIdpLogin demo_world ''ep''
          \<lparr>input_email = ''ada@example.com'', input_password = ''bad''\<rparr>) = Inr None"
  by (simp add: callIdpLogin_def demo_defs run_defs)

text \<open>
  C8, amended. \<open>callIdpLogin\<close> sends exactly one request. On a non-success response it
  returns null; on a success response with a JSON body it returns the triple of the
  \<open>customerAccessToken\<close> node when that node is present and null when it is undefined
  or null, so that a non-success response and a credential rejection give the same
  result. A transport failure is not collapsed into null: when \<open>fetch\<close> rejects, and
  when a success response has a body that is not JSON, the call raises, and it raises
  in no other case.
\<close>

theorem C8_login_result:
  "(\<forall>b. fst (fetch w (login_request apiEndpoint input)) = Response False b \<longrightarrow>
      fst (callIdpLogin w apiEndpoint input) = Inr None) \<and>
   (\<forall>json. fst (fetch w (login_request apiEndpoint input)) = Response True (Json json) \<longrightarrow>
      fst (callIdpLogin w apiEndpoint input) =
        (case login_token_node json of
           Value n \<Rightarrow> Inr (Some n)
         | Undefined \<Rightarrow> Inr None
         | Null \<Rightarrow> Inr None)) \<and>
   (fst (fetch w (login_request apiEndpoint input)) = Rejected \<longrightarrow>
      fst (callIdpLogin w apiEndpoint input) = Inl NetworkError) \<and>
   (fst (fetch w (login_request apiEndpoint input)) = Response True NotJson \<longrightarrow>
      fst (callIdpLogin w apiEndpoint input) = Inl JsonSyntaxError) \<and>
   (\<forall>err. fst (callIdpLogin w apiEndpoint input) = Inl err \<longrightarrow>
      fst (fetch w (login_request apiEndpoint input)) = Rejected \<or>
      fst (fetch w (login_request apiEndpoint input)) = Response True NotJson) \<and>
   sent (snd (callIdpLogin w apiEndpoint input)) = sent w @ [login_request apiEndpoint input]"
proof -
  obtain out w' where f: "fetch w (login_request apiEndpoint input) = (out, w')"
    by (cases "fetch w (login_request apiEndpoint input)")
  note r = callIdpLogin_cases [OF f]
  have a: "\<forall>b. out = Response False b \<longrightarrow> fst (callIdpLogin w apiEndpoint input) = Inr None"
    using r by simp
  have b: "\<forall>json. out = Response True (Json json) \<longrightarrow>
      fst (callIdpLogin w apiEndpoint input) =
        (case login_token_node json of
           Value n \<Rightarrow> Inr (Some n) | Undefined \<Rightarrow> Inr None | Null \<Rightarrow> Inr None)"
    using r by (simp split: nullable.splits)
  have c: "out = Rejected \<longrightarrow> fst (callIdpLogin w apiEndpoint input) = Inl NetworkError"
    using r by simp
  have d: "out = Response True NotJson \<longrightarrow>
             fst (callIdpLogin w apiEndpoint input) = Inl JsonSyntaxError"
    using r by simp
  have e: "\<forall>err. fst (callIdpLogin w apiEndpoint input) = Inl err \<longrightarrow>
      out = Rejected \<or> out = Response True NotJson"
    using r by (auto split: fetch_outcome.splits body.splits nullable.splits if_splits)
  from a b c d e f callIdpLogin_sent [of w apiEndpoint input] show ?thesis by simp
qed

theorem C8_login_result_witness:
  "fst (fetch demo_world (login_request ''ep''
          \<lparr>input_email = ''ada@example.com'', input_password = ''pw''\<rparr>)) =
     Response True (Json (Value \<lparr>data = Value (no_data\<lparr>customerAccessTokenCreate :=
        Value \<lparr>customerAccessToken =
          Value \<lparr>accessToken = ''T1'', refreshToken = ''R1'', expiresIn = 3600\<rparr>\<rparr>\<rparr>)\<rparr>)) \<and>
   fst (callIdpLogin demo_world ''ep''
          \<lparr>input_email = ''ada@example.com'', input_password = ''pw''\<rparr>) =
     Inr (Some \<lparr>accessToken = ''T1'', refreshToken = ''R1'', expiresIn = 3600\<rparr>) \<and>
   fst (fetch demo_world (login_request ''ep''
          \<lparr>input_email = ''err@example.com'', input_password = ''pw''\<rparr>)) =
     Response False NotJson \<and>
   fst (callIdpLogin demo_world ''ep''
          \<lparr>input_email = ''err@example.com'', input_password = ''pw''\<rparr>) = Inr None \<and>
   fst (fetch demo_world (login_request ''ep''
          \<lparr>input_email = ''ada@example.com'', input_password = ''bad''\<rparr>)) =
     Response True (Json (Value \<lparr>data = Value (no_data\<lparr>customerAccessTokenCreate :=
        Value \<lparr>customerAccessToken = Null\<rparr>\<rparr>)\<rparr>)) \<and>
   fst (callIdpLogin demo_world ''ep''
          \<lparr>input_email = ''ada@example.com'', input_password = ''bad''\<rparr>) = Inr None \<and>
   fst (fetch demo_world (login_request ''ep''
          \<lparr>input_email = ''html@example.com'', input_password = ''pw''\<rparr>)) =
     Response True NotJson \<and>
   fst (callIdpLogin demo_world ''ep''
          \<lparr>input_email = ''html@example.com'', input_password = ''pw''\<rparr>) =
     Inl JsonSyntaxError \<and>
   fst (fetch offline_world (login_request ''ep''
          \<lparr>input_email = ''bob@example.com'', input_password = ''pw''\<rparr>)) = Rejected \<and>
   fst (callIdpLogin offline_world ''ep''
          \<lparr>input_email = ''bob@example.com'', input_password = ''pw''\<rparr>) = Inl NetworkError"
proof -
  let ?ok = "\<lparr>input_email = ''ada@example.com'', input_password = ''pw''\<rparr>"
  let ?bad = "\<lparr>input_email = ''ada@example.com'', input_password = ''bad''\<rparr>"
  let ?err = "\<lparr>input_email = ''err@example.com'', input_password = ''pw''\<rparr>"
  let ?html = "\<lparr>input_email = ''html@example.com'', input_password = ''pw''\<rparr>"
  let ?bob = "\<lparr>input_email = ''bob@example.com'', input_password = ''pw''\<rparr>"
  let ?j_ok = "Value \<lparr>data = Value (no_data\<lparr>customerAccessTokenCreate :=
        Value \<lparr>customerAccessToken =
          Value \<lparr>accessToken = ''T1'', refreshToken = ''R1'', expiresIn = 3600\<rparr>\<rparr>\<rparr>)\<rparr>"
  let ?j_bad = "Value \<lparr>data = Value (no_data\<lparr>customerAccessTokenCreate :=
        Value \<lparr>customerAccessToken = Null\<rparr>\<rparr>)\<rparr>"
  have f_ok: "fst (fetch demo_world (login_request ''ep'' ?ok)) = Response True (Json ?j_ok)"
    by (simp add: demo_defs run_defs)
  have f_bad: "fst (fetch demo_world (login_request ''ep'' ?bad)) = Response True (Json ?j_bad)"
    by (simp add: demo_defs run_defs)
  have f_err: "fst (fetch demo_world (login_request ''ep'' ?err)) = Response False NotJson"
    by (simp add: demo_defs run_defs)
  have f_html: "fst (fetch demo_world (login_request ''ep'' ?html)) = Response True NotJson"
    by (simp add: demo_defs run_defs)
  have f_off: "fst (fetch offline_world (login_request ''ep'' ?bob)) = Rejected"
    by (simp add: demo_defs run_defs)
  have n_ok: "login_token_node ?j_ok =
                Value \<lparr>accessToken = ''T1'', refreshToken = ''R1'', expiresIn = 3600\<rparr>"
    and n_bad: "login_token_node ?j_bad = Null"
    by (simp_all add: demo_defs run_defs)
  have r_ok: "fst (callIdpLogin demo_world ''ep'' ?ok) =
     (case login_token_node ?j_ok of
        Value n \<Rightarrow> Inr (Some n) | Undefined \<Rightarrow> Inr None | Null \<Rightarrow> Inr None)"
    using C8_login_result [of demo_world "''ep''" ?ok] f_ok by blast
  have r_bad: "fst (callIdpLogin demo_world ''ep'' ?bad) =
     (case login_token_node ?j_bad of
        Value n \<Rightarrow> Inr (Some n) | Undefined \<Rightarrow> Inr None | Null \<Rightarrow> Inr None)"
    using C8_login_result [of demo_world "''ep''" ?bad] f_bad by blast
  have r_err: "fst (callIdpLogin demo_world ''ep'' ?err) = Inr None"
    using C8_login_result [of demo_world "''ep''" ?err] f_err by blast
  have r_html: "fst (callIdpLogin demo_world ''ep'' ?html) = Inl JsonSyntaxError"
    using C8_login_result [of demo_world "''ep''" ?html] f_html by blast
  have r_off: "fst (callIdpLogin offline_world ''ep'' ?bob) = Inl NetworkError"
    using C8_login_result [of offline_world "''ep''" ?bob] f_off by blast
  from f_ok f_bad f_err f_html f_off r_ok r_bad r_err r_html r_off n_ok n_bad
  show ?thesis by simp
qed

end
